theory Spec2Isabelle
  imports Main "HOL-Library.Word" "HOL-Library.Multiset"
begin

section \<open>Machine types of the Go program\<close>

text \<open>
  The plugin is written in Go.  Its integers have a fixed width, so they are words:
  \<open>uint64\<close>, \<open>int64\<close> and \<open>uint32\<close> are read with \<open>uint\<close> (unsigned) or \<open>sint\<close>
  (two's complement).  Go's \<open>int\<close> is taken at its 64-bit width, the width of the
  targets the collector is built for.  A \<open>float64\<close> is only ever copied by this
  code, never computed with, so it is carried as its 64-bit IEEE pattern.
\<close>

type_synonym uint64 = "64 word"
type_synonym int64 = "64 word"
type_synonym uint32 = "32 word"
type_synonym go_int = "64 word"
type_synonym float64 = "64 word"

text \<open>
  A function of the program either returns or stops the process with a run-time
  panic (an index out of range, a nil dereference).
\<close>

datatype 'a run = Panic | Return 'a

text \<open>The conversions the source writes as \<open>int64(x)\<close>, one for each type of \<open>x\<close>.\<close>

definition int64_of_uint64 :: "uint64 \<Rightarrow> int64" where
  "int64_of_uint64 x = ucast x"

definition int64_of_uint32 :: "uint32 \<Rightarrow> int64" where
  "int64_of_uint32 x = ucast x"

definition int64_of_int :: "go_int \<Rightarrow> int64" where
  "int64_of_int x = scast x"

definition float64_of_float64 :: "float64 \<Rightarrow> float64" where
  "float64_of_float64 x = x"

section \<open>The pause history: an array of 256 unsigned 64-bit values\<close>

typedef pause_array = "{xs :: uint64 list. length xs = 256}"
  by (rule exI [of _ "replicate 256 0"]) simp

text \<open>Indexing with a computed index panics outside the array.\<close>

definition index_pause :: "pause_array \<Rightarrow> nat \<Rightarrow> uint64 run" where
  "index_pause a i =
     (let xs = Rep_pause_array a in if i < length xs then Return (xs ! i) else Panic)"

text \<open>The array with every slot zero, and the array with one slot overwritten.\<close>

definition zero_pauses :: pause_array where
  "zero_pauses = Abs_pause_array (replicate 256 0)"

definition store_pause :: "pause_array \<Rightarrow> nat \<Rightarrow> uint64 \<Rightarrow> pause_array" where
  "store_pause a i v = Abs_pause_array ((Rep_pause_array a)[i := v])"

section \<open>The decoded payload\<close>

text \<open>
  \<open>runtime.MemStats\<close> belongs to Go's standard library; the fields below are the
  ones the collector reads, with the types the library declares.
\<close>

record MemStats =
  Alloc :: uint64
  TotalAlloc :: uint64
  Sys :: uint64
  Lookups :: uint64
  Mallocs :: uint64
  Frees :: uint64
  HeapAlloc :: uint64
  HeapSys :: uint64
  HeapIdle :: uint64
  HeapInuse :: uint64
  HeapReleased :: uint64
  HeapObjects :: uint64
  StackInuse :: uint64
  StackSys :: uint64
  MSpanInuse :: uint64
  MSpanSys :: uint64
  MCacheInuse :: uint64
  MCacheSys :: uint64
  OtherSys :: uint64
  GCSys :: uint64
  NextGC :: uint64
  LastGC :: uint64
  PauseTotalNs :: uint64
  PauseNs :: pause_array
  NumGC :: uint32
  GCCPUFraction :: float64

record RuntimeData =
  Serial :: string
  CPUNum :: go_int
  ThreadNum :: go_int
  GoRoutineNum :: go_int
  CpuPercent :: go_int
  MemPercent :: go_int
  Memstats :: MemStats

section \<open>metric.go\<close>

record Fields =
  Serial :: string
  NumCpu :: int64
  NumThread :: int64
  NumGoroutine :: int64
  NumCgoCall :: int64
  CpuPercent :: int64
  MemPercent :: int64
  Alloc :: int64
  TotalAlloc :: int64
  Sys :: int64
  Lookups :: int64
  Mallocs :: int64
  Frees :: int64
  HeapAlloc :: int64
  HeapSys :: int64
  HeapIdle :: int64
  HeapInuse :: int64
  HeapReleased :: int64
  HeapObjects :: int64
  StackInuse :: int64
  StackSys :: int64
  MSpanInuse :: int64
  MSpanSys :: int64
  MCacheInuse :: int64
  MCacheSys :: int64
  OtherSys :: int64
  GCSys :: int64
  NextGC :: int64
  LastGC :: int64
  PauseTotalNs :: int64
  PauseNs :: int64
  NumGC :: int64
  GCCPUFraction :: float64
  Goarch :: string
  Goos :: string
  Version :: string

text \<open>\<open>Fields{}\<close>: every field at the zero value of its type.\<close>

definition Fields_zero :: Fields where
  "Fields_zero =
     \<lparr>Serial = [], NumCpu = 0, NumThread = 0, NumGoroutine = 0, NumCgoCall = 0,
      CpuPercent = 0, MemPercent = 0,
      Alloc = 0, TotalAlloc = 0, Sys = 0, Lookups = 0, Mallocs = 0, Frees = 0,
      HeapAlloc = 0, HeapSys = 0, HeapIdle = 0, HeapInuse = 0, HeapReleased = 0,
      HeapObjects = 0,
      StackInuse = 0, StackSys = 0, MSpanInuse = 0, MSpanSys = 0, MCacheInuse = 0,
      MCacheSys = 0, OtherSys = 0,
      GCSys = 0, NextGC = 0, LastGC = 0, PauseTotalNs = 0, PauseNs = 0, NumGC = 0,
      GCCPUFraction = 0, Goarch = [], Goos = [], Version = []\<rparr>"

text \<open>
  The index \<open>(m.NumGC+255)%256\<close> is computed in \<open>uint32\<close>: the sum wraps at
  \<open>2 ^ 32\<close> before the remainder is taken.
\<close>

definition pause_index :: "uint32 \<Rightarrow> nat" where
  "pause_index numGC = unat ((numGC + 255) mod 256)"

definition collectGCStats :: "Fields \<Rightarrow> MemStats \<Rightarrow> Fields run" where
  "collectGCStats fs m =
     (let fs = fs\<lparr>GCSys := int64_of_uint64 (MemStats.GCSys m)\<rparr>;
          fs = fs\<lparr>NextGC := int64_of_uint64 (MemStats.NextGC m)\<rparr>;
          fs = fs\<lparr>LastGC := int64_of_uint64 (MemStats.LastGC m)\<rparr>;
          fs = fs\<lparr>PauseTotalNs := int64_of_uint64 (MemStats.PauseTotalNs m)\<rparr>
      in case index_pause (MemStats.PauseNs m) (pause_index (MemStats.NumGC m)) of
           Panic \<Rightarrow> Panic
         | Return p \<Rightarrow>
             (let fs = fs\<lparr>PauseNs := int64_of_uint64 p\<rparr>;
                  fs = fs\<lparr>NumGC := int64_of_uint32 (MemStats.NumGC m)\<rparr>;
                  fs = fs\<lparr>GCCPUFraction :=
                             float64_of_float64 (MemStats.GCCPUFraction m)\<rparr>
              in Return fs))"

definition collectMemStats :: "Fields \<Rightarrow> MemStats \<Rightarrow> Fields" where
  "collectMemStats fs m =
     fs\<lparr>Alloc := int64_of_uint64 (MemStats.Alloc m),
            TotalAlloc := int64_of_uint64 (MemStats.TotalAlloc m),
            Sys := int64_of_uint64 (MemStats.Sys m),
            Lookups := int64_of_uint64 (MemStats.Lookups m),
            Mallocs := int64_of_uint64 (MemStats.Mallocs m),
            Frees := int64_of_uint64 (MemStats.Frees m),
            HeapAlloc := int64_of_uint64 (MemStats.HeapAlloc m),
            HeapSys := int64_of_uint64 (MemStats.HeapSys m),
            HeapIdle := int64_of_uint64 (MemStats.HeapIdle m),
            HeapInuse := int64_of_uint64 (MemStats.HeapInuse m),
            HeapReleased := int64_of_uint64 (MemStats.HeapReleased m),
            HeapObjects := int64_of_uint64 (MemStats.HeapObjects m),
            StackInuse := int64_of_uint64 (MemStats.StackInuse m),
            StackSys := int64_of_uint64 (MemStats.StackSys m),
            MSpanInuse := int64_of_uint64 (MemStats.MSpanInuse m),
            MSpanSys := int64_of_uint64 (MemStats.MSpanSys m),
            MCacheInuse := int64_of_uint64 (MemStats.MCacheInuse m),
            MCacheSys := int64_of_uint64 (MemStats.MCacheSys m),
            OtherSys := int64_of_uint64 (MemStats.OtherSys m)\<rparr>"

text \<open>The values of the field map are Go interface values holding an \<open>int64\<close> or a \<open>float64\<close>.\<close>

datatype iface = I64 int64 | F64 float64

definition Tags :: "Fields \<Rightarrow> (string \<rightharpoonup> string)" where
  "Tags f = map_of [(''serial'', Serial f)]"

definition Values :: "Fields \<Rightarrow> (string \<rightharpoonup> iface)" where
  "Values f = map_of
     [(''cpu.count'', I64 (NumCpu f)),
      (''cpu.goroutines'', I64 (NumGoroutine f)),
      (''cpu.cgo_calls'', I64 (NumCgoCall f)),
      (''cpu.thread'', I64 (NumThread f)),
      (''cpu.percent'', I64 (CpuPercent f)),
      (''mem.percent'', I64 (MemPercent f)),
      (''mem.alloc'', I64 (Alloc f)),
      (''mem.total'', I64 (TotalAlloc f)),
      (''mem.sys'', I64 (Sys f)),
      (''mem.lookups'', I64 (Lookups f)),
      (''mem.malloc'', I64 (Mallocs f)),
      (''mem.frees'', I64 (Frees f)),
      (''mem.heap.alloc'', I64 (HeapAlloc f)),
      (''mem.heap.sys'', I64 (HeapSys f)),
      (''mem.heap.idle'', I64 (HeapIdle f)),
      (''mem.heap.inuse'', I64 (HeapInuse f)),
      (''mem.heap.released'', I64 (HeapReleased f)),
      (''mem.heap.objects'', I64 (HeapObjects f)),
      (''mem.stack.inuse'', I64 (StackInuse f)),
      (''mem.stack.sys'', I64 (StackSys f)),
      (''mem.stack.mspan_inuse'', I64 (MSpanInuse f)),
      (''mem.stack.mspan_sys'', I64 (MSpanSys f)),
      (''mem.stack.mcache_inuse'', I64 (MCacheInuse f)),
      (''mem.stack.mcache_sys'', I64 (MCacheSys f)),
      (''mem.othersys'', I64 (OtherSys f)),
      (''mem.gc.sys'', I64 (GCSys f)),
      (''mem.gc.next'', I64 (NextGC f)),
      (''mem.gc.last'', I64 (LastGC f)),
      (''mem.gc.pause_total'', I64 (PauseTotalNs f)),
      (''mem.gc.pause'', I64 (PauseNs f)),
      (''mem.gc.count'', I64 (NumGC f)),
      (''mem.gc.cpu_fraction'', F64 (float64_of_float64 (GCCPUFraction f)))]"

section \<open>The collaborators of goruntime.go\<close>

text \<open>
  An error value is either one a collaborator produced (TLS set-up, \<open>net/http\<close>,
  \<open>encoding/json\<close>), known here by its message only, or one of the two the plugin
  formats itself:
  \<^item> \<open>StatusError\<close> is
    \<open>fmt.Errorf("Received status code %d (%s), expected %d (%s)", ...)\<close> with its
    four arguments;
  \<^item> \<open>UrlError\<close> is \<open>fmt.Errorf("[url=%s]: %s", url, err)\<close> with its two.
\<close>

datatype error =
    External string
  | StatusError int string int string
  | UrlError string error

text \<open>
  The accumulator is telegraf's sink.  Its contract is all the plugin relies on: it
  receives gauges (a measurement name, a field map, a tag map) and errors.  The
  model keeps what it received, in the order of arrival.
\<close>

record gauge =
  g_name :: string
  g_fields :: "string \<rightharpoonup> iface"
  g_tags :: "string \<rightharpoonup> string"

record accumulator =
  gauges :: "gauge list"
  errors :: "error list"

definition AddGauge ::
  "accumulator \<Rightarrow> string \<Rightarrow> (string \<rightharpoonup> iface) \<Rightarrow> (string \<rightharpoonup> string) \<Rightarrow> accumulator" where
  "AddGauge acc measurement fs tags =
     acc\<lparr>gauges := gauges acc @ [\<lparr>g_name = measurement, g_fields = fs, g_tags = tags\<rparr>]\<rparr>"

definition AddError :: "accumulator \<Rightarrow> error \<Rightarrow> accumulator" where
  "AddError acc err = acc\<lparr>errors := errors acc @ [err]\<rparr>"

text \<open>The TLS options of the configuration, and the handle of a TLS configuration built from them.\<close>

record ClientConfig =
  TLSCA :: string
  TLSCert :: string
  TLSKey :: string
  InsecureSkipVerify :: bool

datatype tls_Config = TLS_Config nat

record http_Client =
  TLSClientConfig :: tls_Config
  Client_Timeout :: int

record http_Request =
  Request_Method :: string
  Request_URL :: string
  BasicAuth :: "(string \<times> string) option"

definition SetBasicAuth :: "http_Request \<Rightarrow> string \<Rightarrow> string \<Rightarrow> http_Request" where
  "SetBasicAuth request username password = request\<lparr>BasicAuth := Some (username, password)\<rparr>"

record http_Response =
  StatusCode :: int
  Body :: string

definition StatusOK :: int where
  "StatusOK = 200"

text \<open>
  What lies outside the plugin: building the TLS configuration, building a request,
  the round trip over the network, the text of a status code and the JSON decoder.
  Each is a function of the environment; a failure is the message of its error.
\<close>

record env =
  TLSConfig :: "ClientConfig \<Rightarrow> string + tls_Config"
  NewRequest :: "string \<Rightarrow> string \<Rightarrow> string + http_Request"
  Do :: "http_Client \<Rightarrow> http_Request \<Rightarrow> string + http_Response"
  StatusText :: "int \<Rightarrow> string"
  Decode :: "string \<Rightarrow> string + RuntimeData"

section \<open>goruntime.go\<close>

definition DefaulMeasurement :: string where
  "DefaulMeasurement = ''goruntime_m''"

record GoRuntime =
  Urls :: "string list"
  Method :: string
  Measurement :: string
  Username :: string
  Password :: string
  TLSOptions :: ClientConfig
  Timeout :: int
  client :: "http_Client option"

definition parse ::
  "GoRuntime \<Rightarrow> RuntimeData \<Rightarrow> accumulator \<Rightarrow> (error option \<times> accumulator) run" where
  "parse c rd acc =
     (let fs = Fields_zero;
          fs = fs\<lparr>Serial := RuntimeData.Serial rd\<rparr>;
          fs = fs\<lparr>NumCpu := int64_of_int (CPUNum rd)\<rparr>;
          fs = fs\<lparr>NumGoroutine := int64_of_int (GoRoutineNum rd)\<rparr>;
          fs = fs\<lparr>NumThread := int64_of_int (ThreadNum rd)\<rparr>;
          fs = fs\<lparr>CpuPercent := int64_of_int (RuntimeData.CpuPercent rd)\<rparr>;
          fs = fs\<lparr>MemPercent := int64_of_int (RuntimeData.MemPercent rd)\<rparr>;
          fs = collectMemStats fs (Memstats rd)
      in case collectGCStats fs (Memstats rd) of
           Panic \<Rightarrow> Panic
         | Return fs \<Rightarrow>
             (let measurement = Measurement c;
                  measurement = (if measurement = [] then DefaulMeasurement else measurement)
              in Return (None, AddGauge acc measurement (Values fs) (Tags fs))))"

definition gatherURL ::
  "env \<Rightarrow> GoRuntime \<Rightarrow> accumulator \<Rightarrow> string \<Rightarrow> (error option \<times> accumulator) run" where
  "gatherURL e c acc url =
     (case NewRequest e (Method c) url of
        Inl err \<Rightarrow> Return (Some (External err), acc)
      | Inr request \<Rightarrow>
          (let request = (if Username c \<noteq> [] \<or> Password c \<noteq> []
                          then SetBasicAuth request (Username c) (Password c)
                          else request)
           in case client c of
                None \<Rightarrow> Panic
              | Some cl \<Rightarrow>
                  (case Do e cl request of
                     Inl err \<Rightarrow> Return (Some (External err), acc)
                   | Inr resp \<Rightarrow>
                       if StatusCode resp \<noteq> StatusOK
                       then Return (Some (StatusError (StatusCode resp)
                                            (StatusText e (StatusCode resp))
                                            StatusOK (StatusText e StatusOK)), acc)
                       else (case Decode e (Body resp) of
                               Inl err \<Rightarrow> Return (Some (External err), acc)
                             | Inr data \<Rightarrow> parse c data acc))))"

text \<open>
  The body of the goroutine started for one URL.  It calls the accumulator at most
  once more than \<open>gatherURL\<close> did.
\<close>

definition gather_task :: "env \<Rightarrow> GoRuntime \<Rightarrow> accumulator \<Rightarrow> string \<Rightarrow> accumulator run" where
  "gather_task e c acc url =
     (case gatherURL e c acc url of
        Panic \<Rightarrow> Panic
      | Return (Some err, acc') \<Rightarrow> Return (AddError acc' (UrlError url err))
      | Return (None, acc') \<Rightarrow> Return acc')"

text \<open>
  The loop over \<open>c.Urls\<close> with the wait for every goroutine.  The goroutines share
  the accumulator only; the model runs them one after the other in the order of
  the list, which is one of their schedules.  A panic in a goroutine ends the
  process.
\<close>

fun gather_all :: "env \<Rightarrow> GoRuntime \<Rightarrow> accumulator \<Rightarrow> string list \<Rightarrow> accumulator run" where
  "gather_all e c acc [] = Return acc"
| "gather_all e c acc (u # us) =
     (case gather_task e c acc u of
        Panic \<Rightarrow> Panic
      | Return acc' \<Rightarrow> gather_all e c acc' us)"

definition Gather ::
  "env \<Rightarrow> GoRuntime \<Rightarrow> accumulator \<Rightarrow> (error option \<times> GoRuntime \<times> accumulator) run" where
  "Gather e c acc =
     (case (case client c of
              None \<Rightarrow>
                (case TLSConfig e (TLSOptions c) of
                   Inl err \<Rightarrow> Inl err
                 | Inr tlsCfg \<Rightarrow>
                     Inr (c\<lparr>client := Some \<lparr>TLSClientConfig = tlsCfg,
                                            Client_Timeout = Timeout c\<rparr>\<rparr>))
            | Some cl \<Rightarrow> Inr c) of
        Inl err \<Rightarrow> Return (Some (External err), c, acc)
      | Inr c \<Rightarrow>
          (case gather_all e c acc (Urls c) of
             Panic \<Rightarrow> Panic
           | Return acc' \<Rightarrow> Return (None, c, acc')))"

section \<open>Observing one run of \<open>parse\<close>\<close>

text \<open>The value in slot \<open>i\<close> of the pause history.\<close>

definition slot :: "pause_array \<Rightarrow> nat \<Rightarrow> uint64" where
  "slot a i = Rep_pause_array a ! i"

text \<open>
  \<open>emits c rd acc P\<close>: the call \<open>parse c rd acc\<close> returns without panic and with a
  nil error, it leaves what the accumulator held in place, and it adds exactly one
  gauge, which satisfies \<open>P\<close>.
\<close>

definition emits :: "GoRuntime \<Rightarrow> RuntimeData \<Rightarrow> accumulator \<Rightarrow> (gauge \<Rightarrow> bool) \<Rightarrow> bool" where
  "emits c rd acc P =
     (case parse c rd acc of
        Panic \<Rightarrow> False
      | Return (err, acc') \<Rightarrow>
          err = None \<and> errors acc' = errors acc \<and>
          take (length (gauges acc)) (gauges acc') = gauges acc \<and>
          (case drop (length (gauges acc)) (gauges acc') of
             [g] \<Rightarrow> P g
           | _ \<Rightarrow> False))"

text \<open>The integer a consumer reads in an \<open>int64\<close> field of a gauge.\<close>

definition int_field :: "gauge \<Rightarrow> string \<Rightarrow> int option" where
  "int_field g k = (case g_fields g k of Some (I64 v) \<Rightarrow> Some (sint v) | _ \<Rightarrow> None)"

text \<open>The keys of the map literal in \<open>Values\<close>, in the order of the source.\<close>

definition output_keys :: "string list" where
  "output_keys =
     [''cpu.count'', ''cpu.goroutines'', ''cpu.cgo_calls'', ''cpu.thread'',
      ''cpu.percent'', ''mem.percent'',
      ''mem.alloc'', ''mem.total'', ''mem.sys'', ''mem.lookups'', ''mem.malloc'', ''mem.frees'',
      ''mem.heap.alloc'', ''mem.heap.sys'', ''mem.heap.idle'', ''mem.heap.inuse'',
      ''mem.heap.released'', ''mem.heap.objects'',
      ''mem.stack.inuse'', ''mem.stack.sys'', ''mem.stack.mspan_inuse'',
      ''mem.stack.mspan_sys'', ''mem.stack.mcache_inuse'', ''mem.stack.mcache_sys'',
      ''mem.othersys'',
      ''mem.gc.sys'', ''mem.gc.next'', ''mem.gc.last'', ''mem.gc.pause_total'',
      ''mem.gc.pause'', ''mem.gc.count'', ''mem.gc.cpu_fraction'']"

text \<open>
  The key set the specification documents for the transform: \<open>cpu.*\<close> (count,
  thread count, concurrent-task count, percent), \<open>mem.*\<close> (alloc, total, sys,
  lookups, malloc count, free count), \<open>mem.heap.*\<close> (alloc, sys, idle, inuse,
  released, object count), \<open>mem.stack.*\<close> (inuse, sys, span and cache inuse and
  sys), \<open>mem.othersys\<close> and \<open>mem.gc.*\<close> (sys, next threshold, last timestamp,
  pause total, most recent pause, count, CPU fraction).
\<close>

definition documented_keys :: "string list" where
  "documented_keys =
     [''cpu.count'', ''cpu.thread'', ''cpu.goroutines'', ''cpu.percent'',
      ''mem.alloc'', ''mem.total'', ''mem.sys'', ''mem.lookups'', ''mem.malloc'', ''mem.frees'',
      ''mem.heap.alloc'', ''mem.heap.sys'', ''mem.heap.idle'', ''mem.heap.inuse'',
      ''mem.heap.released'', ''mem.heap.objects'',
      ''mem.stack.inuse'', ''mem.stack.sys'', ''mem.stack.mspan_inuse'',
      ''mem.stack.mspan_sys'', ''mem.stack.mcache_inuse'', ''mem.stack.mcache_sys'',
      ''mem.othersys'',
      ''mem.gc.sys'', ''mem.gc.next'', ''mem.gc.last'', ''mem.gc.pause_total'',
      ''mem.gc.pause'', ''mem.gc.count'', ''mem.gc.cpu_fraction'']"

text \<open>
  Which source counter each output key carries, read off \<open>collectMemStats\<close>,
  \<open>collectGCStats\<close>, \<open>parse\<close> and \<open>Values\<close>: the unsigned 64-bit counters of the
  memory statistics, and the \<open>int\<close> fields of the payload.
\<close>

definition uint64_sources :: "(string \<times> (MemStats \<Rightarrow> uint64)) list" where
  "uint64_sources =
     [(''mem.alloc'', MemStats.Alloc),
      (''mem.total'', MemStats.TotalAlloc),
      (''mem.sys'', MemStats.Sys),
      (''mem.lookups'', MemStats.Lookups),
      (''mem.malloc'', MemStats.Mallocs),
      (''mem.frees'', MemStats.Frees),
      (''mem.heap.alloc'', MemStats.HeapAlloc),
      (''mem.heap.sys'', MemStats.HeapSys),
      (''mem.heap.idle'', MemStats.HeapIdle),
      (''mem.heap.inuse'', MemStats.HeapInuse),
      (''mem.heap.released'', MemStats.HeapReleased),
      (''mem.heap.objects'', MemStats.HeapObjects),
      (''mem.stack.inuse'', MemStats.StackInuse),
      (''mem.stack.sys'', MemStats.StackSys),
      (''mem.stack.mspan_inuse'', MemStats.MSpanInuse),
      (''mem.stack.mspan_sys'', MemStats.MSpanSys),
      (''mem.stack.mcache_inuse'', MemStats.MCacheInuse),
      (''mem.stack.mcache_sys'', MemStats.MCacheSys),
      (''mem.othersys'', MemStats.OtherSys),
      (''mem.gc.sys'', MemStats.GCSys),
      (''mem.gc.next'', MemStats.NextGC),
      (''mem.gc.last'', MemStats.LastGC),
      (''mem.gc.pause_total'', MemStats.PauseTotalNs),
      (''mem.gc.pause'', \<lambda>m. slot (MemStats.PauseNs m) (pause_index (MemStats.NumGC m)))]"

definition int_sources :: "(string \<times> (RuntimeData \<Rightarrow> go_int)) list" where
  "int_sources =
     [(''cpu.count'', CPUNum),
      (''cpu.goroutines'', GoRoutineNum),
      (''cpu.thread'', ThreadNum),
      (''cpu.percent'', RuntimeData.CpuPercent),
      (''mem.percent'', RuntimeData.MemPercent)]"

text \<open>
  The record \<open>parse\<close> has built when it calls the accumulator, written out field by
  field; \<open>parse_eq\<close> below proves that this is what the code computes.
\<close>

definition flattened :: "RuntimeData \<Rightarrow> Fields" where
  "flattened rd =
     \<lparr>Serial = RuntimeData.Serial rd,
      NumCpu = int64_of_int (CPUNum rd),
      NumThread = int64_of_int (ThreadNum rd),
      NumGoroutine = int64_of_int (GoRoutineNum rd),
      NumCgoCall = 0,
      CpuPercent = int64_of_int (RuntimeData.CpuPercent rd),
      MemPercent = int64_of_int (RuntimeData.MemPercent rd),
      Alloc = int64_of_uint64 (MemStats.Alloc (Memstats rd)),
      TotalAlloc = int64_of_uint64 (MemStats.TotalAlloc (Memstats rd)),
      Sys = int64_of_uint64 (MemStats.Sys (Memstats rd)),
      Lookups = int64_of_uint64 (MemStats.Lookups (Memstats rd)),
      Mallocs = int64_of_uint64 (MemStats.Mallocs (Memstats rd)),
      Frees = int64_of_uint64 (MemStats.Frees (Memstats rd)),
      HeapAlloc = int64_of_uint64 (MemStats.HeapAlloc (Memstats rd)),
      HeapSys = int64_of_uint64 (MemStats.HeapSys (Memstats rd)),
      HeapIdle = int64_of_uint64 (MemStats.HeapIdle (Memstats rd)),
      HeapInuse = int64_of_uint64 (MemStats.HeapInuse (Memstats rd)),
      HeapReleased = int64_of_uint64 (MemStats.HeapReleased (Memstats rd)),
      HeapObjects = int64_of_uint64 (MemStats.HeapObjects (Memstats rd)),
      StackInuse = int64_of_uint64 (MemStats.StackInuse (Memstats rd)),
      StackSys = int64_of_uint64 (MemStats.StackSys (Memstats rd)),
      MSpanInuse = int64_of_uint64 (MemStats.MSpanInuse (Memstats rd)),
      MSpanSys = int64_of_uint64 (MemStats.MSpanSys (Memstats rd)),
      MCacheInuse = int64_of_uint64 (MemStats.MCacheInuse (Memstats rd)),
      MCacheSys = int64_of_uint64 (MemStats.MCacheSys (Memstats rd)),
      OtherSys = int64_of_uint64 (MemStats.OtherSys (Memstats rd)),
      GCSys = int64_of_uint64 (MemStats.GCSys (Memstats rd)),
      NextGC = int64_of_uint64 (MemStats.NextGC (Memstats rd)),
      LastGC = int64_of_uint64 (MemStats.LastGC (Memstats rd)),
      PauseTotalNs = int64_of_uint64 (MemStats.PauseTotalNs (Memstats rd)),
      PauseNs = int64_of_uint64
                  (slot (MemStats.PauseNs (Memstats rd))
                     (pause_index (MemStats.NumGC (Memstats rd)))),
      NumGC = int64_of_uint32 (MemStats.NumGC (Memstats rd)),
      GCCPUFraction = float64_of_float64 (MemStats.GCCPUFraction (Memstats rd)),
      Goarch = [], Goos = [], Version = []\<rparr>"

definition measurement_of :: "GoRuntime \<Rightarrow> string" where
  "measurement_of c = (if Measurement c = [] then DefaulMeasurement else Measurement c)"

section \<open>Observing one poll cycle\<close>

definition acc_empty :: accumulator where
  "acc_empty = \<lparr>gauges = [], errors = []\<rparr>"

text \<open>
  \<open>client_ready e c\<close>: the HTTP client is there already, or the TLS configuration
  it needs can be built.
\<close>

definition client_ready :: "env \<Rightarrow> GoRuntime \<Rightarrow> bool" where
  "client_ready e c =
     (case client c of
        Some cl \<Rightarrow> True
      | None \<Rightarrow> (case TLSConfig e (TLSOptions c) of Inl err \<Rightarrow> False | Inr tlsCfg \<Rightarrow> True))"

text \<open>What one endpoint hands to an accumulator that was empty: its report.\<close>

definition report :: "env \<Rightarrow> GoRuntime \<Rightarrow> string \<Rightarrow> accumulator run" where
  "report e c url = gather_task e c acc_empty url"

definition report_gauges :: "env \<Rightarrow> GoRuntime \<Rightarrow> string \<Rightarrow> gauge list" where
  "report_gauges e c url = (case report e c url of Panic \<Rightarrow> [] | Return a \<Rightarrow> gauges a)"

definition report_errors :: "env \<Rightarrow> GoRuntime \<Rightarrow> string \<Rightarrow> error list" where
  "report_errors e c url = (case report e c url of Panic \<Rightarrow> [] | Return a \<Rightarrow> errors a)"

text \<open>
  \<open>one_report e c url\<close>: the endpoint does not panic; when its fetch fails with a
  cause, its report is the one error that names the URL and the cause, and no gauge;
  when its fetch succeeds, its report is one gauge and no error.
\<close>

definition one_report :: "env \<Rightarrow> GoRuntime \<Rightarrow> string \<Rightarrow> bool" where
  "one_report e c url =
     (case gatherURL e c acc_empty url of
        Panic \<Rightarrow> False
      | Return (Some cause, a) \<Rightarrow>
          report e c url = Return \<lparr>gauges = [], errors = [UrlError url cause]\<rparr>
      | Return (None, a) \<Rightarrow>
          report e c url = Return a \<and> errors a = [] \<and> length (gauges a) = 1)"

text \<open>\<open>endpoint_fails e c url\<close>: the fetch of this endpoint returns an error.\<close>

definition endpoint_fails :: "env \<Rightarrow> GoRuntime \<Rightarrow> string \<Rightarrow> bool" where
  "endpoint_fails e c url =
     (case gatherURL e c acc_empty url of
        Panic \<Rightarrow> False
      | Return (err, a) \<Rightarrow> err \<noteq> None)"

text \<open>
  \<open>cycle_ok e c acc\<close>: \<open>Gather\<close> returns without panic and with a nil error; the
  configuration it leaves differs from \<open>c\<close> in the client at most, which is set; the
  accumulator holds what it held, then the report of each endpoint; each endpoint
  made one report; and when every endpoint fails, no gauge was added.
\<close>

definition cycle_ok :: "env \<Rightarrow> GoRuntime \<Rightarrow> accumulator \<Rightarrow> bool" where
  "cycle_ok e c acc =
     (case Gather e c acc of
        Panic \<Rightarrow> False
      | Return (err, c', acc') \<Rightarrow>
          err = None \<and> client c' \<noteq> None \<and> c'\<lparr>client := client c\<rparr> = c \<and>
          gauges acc' = gauges acc @ concat (map (report_gauges e c') (Urls c)) \<and>
          errors acc' = errors acc @ concat (map (report_errors e c') (Urls c)) \<and>
          list_all (one_report e c') (Urls c) \<and>
          (list_all (endpoint_fails e c') (Urls c) \<longrightarrow>
             gauges acc' = gauges acc \<and>
             length (errors acc') = length (errors acc) + length (Urls c)))"

text \<open>
  \<open>status_rejected r\<close>: the fetch ended with the error that tells the status
  received from the status expected.
\<close>

definition status_rejected :: "(error option \<times> accumulator) run \<Rightarrow> bool" where
  "status_rejected r =
     (case r of
        Return (Some (StatusError actual actual_text expected expected_text), a) \<Rightarrow> True
      | _ \<Rightarrow> False)"

definition is_2xx :: "int \<Rightarrow> bool" where
  "is_2xx code = (200 \<le> code \<and> code < 300)"

section \<open>Example inputs\<close>

definition MemStats_zero :: MemStats where
  "MemStats_zero =
     \<lparr>MemStats.Alloc = 0, MemStats.TotalAlloc = 0, MemStats.Sys = 0, MemStats.Lookups = 0, MemStats.Mallocs = 0, MemStats.Frees = 0,
      MemStats.HeapAlloc = 0, MemStats.HeapSys = 0, MemStats.HeapIdle = 0, MemStats.HeapInuse = 0, MemStats.HeapReleased = 0,
      MemStats.HeapObjects = 0, MemStats.StackInuse = 0, MemStats.StackSys = 0, MemStats.MSpanInuse = 0, MemStats.MSpanSys = 0,
      MemStats.MCacheInuse = 0, MemStats.MCacheSys = 0, MemStats.OtherSys = 0, MemStats.GCSys = 0, MemStats.NextGC = 0, MemStats.LastGC = 0,
      MemStats.PauseTotalNs = 0, MemStats.PauseNs = zero_pauses, MemStats.NumGC = 0, MemStats.GCCPUFraction = 0\<rparr>"

text \<open>A payload with the serial \<open>node-7\<close> and every other field zero.\<close>

definition node7 :: RuntimeData where
  "node7 =
     \<lparr>RuntimeData.Serial = ''node-7'', CPUNum = 0, ThreadNum = 0, GoRoutineNum = 0,
      RuntimeData.CpuPercent = 0, RuntimeData.MemPercent = 0, Memstats = MemStats_zero\<rparr>"

text \<open>Three endpoints, no measurement name, no credentials, the client not built yet.\<close>

definition three_urls :: GoRuntime where
  "three_urls =
     \<lparr>Urls = [''http://a/vars'', ''http://b/vars'', ''http://c/vars''],
      Method = ''GET'', Measurement = [], Username = [], Password = [],
      TLSOptions = \<lparr>TLSCA = [], TLSCert = [], TLSKey = [], InsecureSkipVerify = False\<rparr>,
      Timeout = 5000000000, client = None\<rparr>"

definition a_client :: http_Client where
  "a_client = \<lparr>TLSClientConfig = TLS_Config 0, Client_Timeout = 5000000000\<rparr>"

definition text_of_status :: "int \<Rightarrow> string" where
  "text_of_status code =
     (if code = 200 then ''OK''
      else if code = 201 then ''Created''
      else if code = 500 then ''Internal Server Error''
      else [])"

text \<open>
  An environment where endpoint b answers 500 and the others answer 200 with the
  payload of \<open>node7\<close>; one where every endpoint answers 500; one where every
  endpoint answers 201; and one where the TLS configuration cannot be built.
\<close>

definition env_b_down :: env where
  "env_b_down =
     \<lparr>TLSConfig = (\<lambda>opts. Inr (TLS_Config 0)),
      NewRequest = (\<lambda>method url.
         Inr \<lparr>Request_Method = method, Request_URL = url, BasicAuth = None\<rparr>),
      Do = (\<lambda>cl request.
         if Request_URL request = ''http://b/vars''
         then Inr \<lparr>StatusCode = 500, Body = []\<rparr>
         else Inr \<lparr>StatusCode = 200, Body = ''node-7 payload''\<rparr>),
      StatusText = text_of_status,
      Decode = (\<lambda>body. Inr node7)\<rparr>"

definition env_all_down :: env where
  "env_all_down = env_b_down\<lparr>Do := (\<lambda>cl request. Inr \<lparr>StatusCode = 500, Body = []\<rparr>)\<rparr>"

definition env_created :: env where
  "env_created =
     env_b_down\<lparr>Do := (\<lambda>cl request.
       Inr \<lparr>StatusCode = 201, Body = ''node-7 payload''\<rparr>)\<rparr>"

definition env_tls_down :: env where
  "env_tls_down = env_b_down\<lparr>TLSConfig := (\<lambda>opts. Inl ''open ca.pem: no such file'')\<rparr>"

text \<open>A payload with the garbage-collection count and the pause history replaced.\<close>

definition with_gc :: "RuntimeData \<Rightarrow> uint32 \<Rightarrow> pause_array \<Rightarrow> RuntimeData" where
  "with_gc rd k ps =
     rd\<lparr>Memstats := (Memstats rd)\<lparr>MemStats.NumGC := k, MemStats.PauseNs := ps\<rparr>\<rparr>"

definition with_Alloc :: "RuntimeData \<Rightarrow> uint64 \<Rightarrow> RuntimeData" where
  "with_Alloc rd v = rd\<lparr>Memstats := (Memstats rd)\<lparr>MemStats.Alloc := v\<rparr>\<rparr>"

definition with_HeapObjects :: "RuntimeData \<Rightarrow> uint64 \<Rightarrow> RuntimeData" where
  "with_HeapObjects rd v = rd\<lparr>Memstats := (Memstats rd)\<lparr>MemStats.HeapObjects := v\<rparr>\<rparr>"

text \<open>The configuration of \<open>three_urls\<close> once the client is built.\<close>

definition three_urls_ready :: GoRuntime where
  "three_urls_ready = three_urls\<lparr>client := Some a_client\<rparr>"

text \<open>The gauge that the payload \<open>node7\<close> yields under the default measurement name.\<close>

definition node7_gauge :: gauge where
  "node7_gauge =
     \<lparr>g_name = ''goruntime_m'', g_fields = Values (flattened node7),
      g_tags = Tags (flattened node7)\<rparr>"

section \<open>Facts about the machine types\<close>

lemma int64_of_uint64_id: "int64_of_uint64 x = x"
  by (simp add: int64_of_uint64_def)

lemma int64_of_int_id: "int64_of_int x = x"
  by (simp add: int64_of_int_def)

lemma sint_small:
  fixes x :: "64 word"
  assumes "uint x < 2 ^ 63"
  shows "sint x = uint x"
proof -
  have "signed_take_bit 63 (uint x) = uint x"
  proof (rule signed_take_bit_int_eq_self)
    have "- (2 ^ 63) \<le> (0::int)" by simp
    also have "0 \<le> uint x" by simp
    finally show "- (2 ^ 63) \<le> uint x" .
    show "uint x < 2 ^ 63" by (fact assms)
  qed
  then show ?thesis by (simp add: sint_uint)
qed

lemma sint_big:
  fixes x :: "64 word"
  assumes "2 ^ 63 \<le> uint x"
  shows "sint x = uint x - 2 ^ 64"
proof -
  have lt: "uint x < 2 ^ 64" using uint_lt2p [of x] by simp
  have "take_bit 64 (uint x + 2 ^ 63) = (uint x + 2 ^ 63) mod 2 ^ 64"
    by (simp add: take_bit_eq_mod)
  also have "\<dots> = uint x + 2 ^ 63 - 2 ^ 64"
  proof -
    have "(uint x + 2 ^ 63 - 2 ^ 64) mod 2 ^ 64 = uint x + 2 ^ 63 - 2 ^ 64"
      using assms lt by (intro mod_pos_pos_trivial) simp_all
    moreover have "(uint x + 2 ^ 63) mod 2 ^ 64 = (uint x + 2 ^ 63 - 2 ^ 64) mod 2 ^ 64"
      by (metis minus_mod_self2)
    ultimately show ?thesis by simp
  qed
  finally show ?thesis
    by (simp add: sint_uint signed_take_bit_eq_take_bit_shift)
qed

lemma sint_int64_of_uint32: "sint (int64_of_uint32 x) = uint x"
proof -
  have b: "uint x < 2 ^ 32"
    using uint_lt2p [of x] by simp
  have "take_bit 64 (uint x) = uint x"
    by (rule take_bit_int_eq_self) (use b in simp_all)
  then have "uint (ucast x :: 64 word) = uint x"
    by (simp add: unsigned_ucast_eq)
  moreover have "uint x < 2 ^ 63"
    using b by simp
  ultimately show ?thesis
    using sint_small [of "ucast x"] by (simp add: int64_of_uint32_def)
qed

section \<open>Facts about the pause history\<close>

lemma length_Rep_pause_array: "length (Rep_pause_array a) = 256"
  using Rep_pause_array [of a] by simp

lemma pause_index_eq: "pause_index k = (unat k + 255) mod 256"
  unfolding pause_index_def
  by (simp add: unat_mod unat_word_ariths mod_mod_cancel)

lemma pause_index_lt: "pause_index k < 256"
  by (simp add: pause_index_eq)

lemma index_pause_eq: "index_pause a (pause_index k) = Return (slot a (pause_index k))"
  by (simp add: index_pause_def slot_def pause_index_lt length_Rep_pause_array)

lemma slot_zero_pauses: "i < 256 \<Longrightarrow> slot zero_pauses i = 0"
  by (simp add: slot_def zero_pauses_def Abs_pause_array_inverse)

lemma slot_store_pause:
  "i < 256 \<Longrightarrow> slot (store_pause a i v) j = (if j = i then v else slot a j)"
  by (simp add: slot_def store_pause_def Abs_pause_array_inverse length_Rep_pause_array)

section \<open>What \<open>parse\<close> computes\<close>

lemma parse_eq:
  "parse c rd acc =
     Return (None, AddGauge acc (measurement_of c) (Values (flattened rd)) (Tags (flattened rd)))"
  by (simp add: parse_def collectGCStats_def collectMemStats_def index_pause_eq Let_def
      flattened_def Fields_zero_def measurement_of_def)

lemma emits_iff:
  "emits c rd acc P \<longleftrightarrow>
     P \<lparr>g_name = measurement_of c, g_fields = Values (flattened rd),
        g_tags = Tags (flattened rd)\<rparr>"
  by (simp add: emits_def parse_eq AddGauge_def)

lemma emits_mono: "emits c rd acc P \<Longrightarrow> (\<And>g. P g \<Longrightarrow> Q g) \<Longrightarrow> emits c rd acc Q"
  by (simp add: emits_iff)

lemma dom_Values: "dom (Values f) = set output_keys"
  unfolding Values_def output_keys_def dom_map_of_conv_image_fst by simp

section \<open>The transform\<close>

lemma sint_fits32:
  fixes x :: "64 word"
  assumes "uint x < 2 ^ 32"
  shows "sint x = uint x"
proof (rule sint_small)
  have "(2::int) ^ 32 < 2 ^ 63" by simp
  with assms show "uint x < 2 ^ 63" by (rule less_trans)
qed

lemma Values_pause:
  "Values (flattened rd) ''mem.gc.pause'' =
     Some (I64 (slot (MemStats.PauseNs (Memstats rd))
                  ((unat (MemStats.NumGC (Memstats rd)) + 255) mod 256)))"
  by (simp add: Values_def flattened_def pause_index_eq int64_of_uint64_id)

text \<open>
  Claim C1, amended.  For every payload with garbage-collection count \<open>k\<close>, the
  one gauge that \<open>parse\<close> emits carries under \<open>mem.gc.pause\<close> the conversion to
  \<open>int64\<close> of the value stored in slot \<open>(k + 255) mod 256\<close> of the pause history:
  the field reads as the stored number when that is below \<open>2 ^ 63\<close>, and as the
  stored number minus \<open>2 ^ 64\<close> otherwise.  The slot is always one of the 256, so
  the lookup never panics: for \<open>k = 5\<close> it is slot 4, for \<open>k = 0\<close> it is slot 255,
  and with \<open>k = 0\<close> on a history of zeros the field is the value 0.
\<close>
theorem C1_most_recent_pause:
  "emits c rd acc (\<lambda>g.
      g_fields g ''mem.gc.pause'' =
        Some (I64 (int64_of_uint64
                     (slot (MemStats.PauseNs (Memstats rd))
                        ((unat (MemStats.NumGC (Memstats rd)) + 255) mod 256)))) \<and>
      (uint (slot (MemStats.PauseNs (Memstats rd))
              ((unat (MemStats.NumGC (Memstats rd)) + 255) mod 256)) < 2 ^ 63 \<longrightarrow>
       int_field g ''mem.gc.pause'' =
         Some (uint (slot (MemStats.PauseNs (Memstats rd))
                       ((unat (MemStats.NumGC (Memstats rd)) + 255) mod 256)))) \<and>
      (2 ^ 63 \<le> uint (slot (MemStats.PauseNs (Memstats rd))
                      ((unat (MemStats.NumGC (Memstats rd)) + 255) mod 256)) \<longrightarrow>
       int_field g ''mem.gc.pause'' =
         Some (uint (slot (MemStats.PauseNs (Memstats rd))
                       ((unat (MemStats.NumGC (Memstats rd)) + 255) mod 256)) - 2 ^ 64))) \<and>
   (unat (MemStats.NumGC (Memstats rd)) + 255) mod 256 < 256 \<and>
   emits c (with_gc rd 5 ps) acc (\<lambda>g.
      g_fields g ''mem.gc.pause'' = Some (I64 (int64_of_uint64 (slot ps 4)))) \<and>
   emits c (with_gc rd 0 ps) acc (\<lambda>g.
      g_fields g ''mem.gc.pause'' = Some (I64 (int64_of_uint64 (slot ps 255)))) \<and>
   emits c (with_gc rd 0 zero_pauses) acc (\<lambda>g.
      g_fields g ''mem.gc.pause'' = Some (I64 0) \<and> int_field g ''mem.gc.pause'' = Some 0)"
proof -
  let ?s = "slot (MemStats.PauseNs (Memstats rd))
              ((unat (MemStats.NumGC (Memstats rd)) + 255) mod 256)"
  have a: "emits c rd acc (\<lambda>g.
      g_fields g ''mem.gc.pause'' = Some (I64 (int64_of_uint64 ?s)) \<and>
      (uint ?s < 2 ^ 63 \<longrightarrow> int_field g ''mem.gc.pause'' = Some (uint ?s)) \<and>
      (2 ^ 63 \<le> uint ?s \<longrightarrow> int_field g ''mem.gc.pause'' = Some (uint ?s - 2 ^ 64)))"
    using sint_small [of ?s] sint_big [of ?s]
    by (simp add: emits_iff Values_pause int_field_def int64_of_uint64_id)
  have b: "emits c (with_gc rd 5 ps) acc
             (\<lambda>g. g_fields g ''mem.gc.pause'' = Some (I64 (int64_of_uint64 (slot ps 4))))"
    by (simp add: emits_iff Values_pause with_gc_def int64_of_uint64_id)
  have c: "emits c (with_gc rd 0 ps) acc
             (\<lambda>g. g_fields g ''mem.gc.pause'' = Some (I64 (int64_of_uint64 (slot ps 255))))"
    by (simp add: emits_iff Values_pause with_gc_def int64_of_uint64_id)
  have d: "emits c (with_gc rd 0 zero_pauses) acc (\<lambda>g.
      g_fields g ''mem.gc.pause'' = Some (I64 0) \<and> int_field g ''mem.gc.pause'' = Some 0)"
    by (simp add: emits_iff Values_pause with_gc_def int_field_def slot_zero_pauses)
  from a b c d show ?thesis by simp
qed

text \<open>
  The payload with count 5 and the value 1234 in slot 4 reports 1234; with the
  value \<open>2 ^ 63\<close> in slot 4 it reports \<open>- (2 ^ 63)\<close>.
\<close>

theorem C1_most_recent_pause_witness:
  "uint (slot (MemStats.PauseNs (Memstats (with_gc node7 5 (store_pause zero_pauses 4 1234))))
      ((unat (MemStats.NumGC (Memstats (with_gc node7 5 (store_pause zero_pauses 4 1234)))) + 255)
         mod 256)) < 2 ^ 63 \<and>
   emits three_urls (with_gc node7 5 (store_pause zero_pauses 4 1234)) acc_empty
     (\<lambda>g. int_field g ''mem.gc.pause'' = Some 1234) \<and>
   2 ^ 63 \<le> uint (slot (MemStats.PauseNs
                     (Memstats (with_gc node7 5 (store_pause zero_pauses 4 9223372036854775808))))
      ((unat (MemStats.NumGC
                (Memstats (with_gc node7 5 (store_pause zero_pauses 4 9223372036854775808)))) + 255)
         mod 256)) \<and>
   emits three_urls (with_gc node7 5 (store_pause zero_pauses 4 9223372036854775808)) acc_empty
     (\<lambda>g. int_field g ''mem.gc.pause'' = Some (- 9223372036854775808))"
proof -
  have s: "slot (store_pause zero_pauses 4 1234) 4 = 1234"
    by (simp add: slot_store_pause)
  have t: "slot (store_pause zero_pauses 4 9223372036854775808) 4 = 9223372036854775808"
    by (simp add: slot_store_pause)
  have "emits three_urls (with_gc node7 5 (store_pause zero_pauses 4 1234)) acc_empty
     (\<lambda>g. int_field g ''mem.gc.pause'' = Some 1234)"
    using C1_most_recent_pause [of three_urls "with_gc node7 5 (store_pause zero_pauses 4 1234)"
        acc_empty zero_pauses]
    by (simp add: emits_iff with_gc_def s)
  moreover
  have "emits three_urls (with_gc node7 5 (store_pause zero_pauses 4 9223372036854775808))
          acc_empty (\<lambda>g. int_field g ''mem.gc.pause'' = Some (- 9223372036854775808))"
    using C1_most_recent_pause [of three_urls
        "with_gc node7 5 (store_pause zero_pauses 4 9223372036854775808)" acc_empty zero_pauses]
    by (simp add: emits_iff with_gc_def t)
  ultimately show ?thesis by (simp add: with_gc_def s t)
qed

text \<open>
  With count 5 and the value \<open>2 ^ 64 - 1\<close> in slot 4, the field reads \<open>- 1\<close>, which
  is not the stored number.
\<close>

theorem C1_pause_wraps_counterexample:
  "uint (slot (MemStats.PauseNs
                 (Memstats (with_gc node7 5 (store_pause zero_pauses 4 18446744073709551615))))
          ((unat (MemStats.NumGC
                    (Memstats (with_gc node7 5
                       (store_pause zero_pauses 4 18446744073709551615)))) + 255) mod 256))
     = 18446744073709551615 \<and>
   emits three_urls (with_gc node7 5 (store_pause zero_pauses 4 18446744073709551615)) acc_empty
     (\<lambda>g. int_field g ''mem.gc.pause'' = Some (- 1))"
proof -
  have s: "slot (store_pause zero_pauses 4 18446744073709551615) 4 = 18446744073709551615"
    by (simp add: slot_store_pause)
  show ?thesis
    by (simp add: emits_iff Values_pause int_field_def with_gc_def s)
qed

text \<open>
  Claim C2.  For every payload, the field map of the emitted gauge has the key set
  of the map literal in \<open>Values\<close>, the same for any two payloads, configurations and
  accumulators; and every key of the documented key set is present in it.
\<close>
theorem C2_key_set_fixed:
  "emits c rd acc (\<lambda>g.
      dom (g_fields g) = set output_keys \<and>
      list_all (\<lambda>k. g_fields g k \<noteq> None) documented_keys \<and>
      emits c' rd' acc' (\<lambda>g'. dom (g_fields g') = dom (g_fields g)))"
proof -
  have "list_all (\<lambda>k. Values (flattened rd) k \<noteq> None) documented_keys"
    by (simp add: documented_keys_def Values_def)
  then show ?thesis
    by (simp add: emits_iff dom_Values)
qed

text \<open>
  Claim C5.  For every decoded payload, the gauge is emitted under the configured
  measurement name when that is not empty, and under the literal \<open>goruntime_m\<close>
  when it is empty; configuring \<open>custom_m\<close> emits under \<open>custom_m\<close>.
\<close>
theorem C5_measurement_name:
  "emits c rd acc (\<lambda>g. g_name g = (if Measurement c = [] then ''goruntime_m'' else Measurement c)) \<and>
   emits (c\<lparr>Measurement := ''custom_m''\<rparr>) rd acc (\<lambda>g. g_name g = ''custom_m'') \<and>
   emits (c\<lparr>Measurement := []\<rparr>) rd acc (\<lambda>g. g_name g = ''goruntime_m'')"
  by (simp add: emits_iff measurement_of_def DefaulMeasurement_def)

text \<open>
  Claim C6.  For every payload, the tag map of the emitted gauge is the single tag
  \<open>serial\<close> with the serial string of the payload as its value; an empty serial
  is passed on as the empty string, and \<open>node-7\<close> as \<open>node-7\<close>.
\<close>
theorem C6_tag_is_serial:
  "emits c rd acc (\<lambda>g.
      g_tags g = [''serial'' \<mapsto> RuntimeData.Serial rd] \<and> dom (g_tags g) = {''serial''}) \<and>
   emits c (rd\<lparr>RuntimeData.Serial := []\<rparr>) acc (\<lambda>g. g_tags g = [''serial'' \<mapsto> []]) \<and>
   emits c (rd\<lparr>RuntimeData.Serial := ''node-7''\<rparr>) acc (\<lambda>g. g_tags g = [''serial'' \<mapsto> ''node-7''])"
  by (simp add: emits_iff Tags_def flattened_def)

lemma int_field_uint64_sources:
  "list_all (\<lambda>(k, src).
      int_field \<lparr>g_name = n, g_fields = Values (flattened rd), g_tags = t\<rparr> k =
        Some (sint (src (Memstats rd)))) uint64_sources"
  by (simp add: uint64_sources_def int_field_def Values_def flattened_def int64_of_uint64_id)

lemma int_field_int_sources:
  "list_all (\<lambda>(k, src).
      int_field \<lparr>g_name = n, g_fields = Values (flattened rd), g_tags = t\<rparr> k =
        Some (sint (src rd))) int_sources"
  by (simp add: int_sources_def int_field_def Values_def flattened_def int64_of_int_id)

lemma int_field_count:
  "int_field \<lparr>g_name = n, g_fields = Values (flattened rd), g_tags = t\<rparr> ''mem.gc.count'' =
     Some (uint (MemStats.NumGC (Memstats rd)))"
  by (simp add: int_field_def Values_def flattened_def sint_int64_of_uint32)

text \<open>
  Claim C7.  For every payload, each unsigned counter of the memory statistics
  whose value fits in 32 bits is read back from its output field as the same
  number; the 32-bit garbage-collection count and the \<open>int\<close> fields of the payload
  are read back unchanged whatever their value.
\<close>
theorem C7_widening_lossless:
  "emits c rd acc (\<lambda>g.
      list_all (\<lambda>(k, src).
         uint (src (Memstats rd)) < 2 ^ 32 \<longrightarrow>
         int_field g k = Some (uint (src (Memstats rd)))) uint64_sources \<and>
      int_field g ''mem.gc.count'' = Some (uint (MemStats.NumGC (Memstats rd))) \<and>
      list_all (\<lambda>(k, src). int_field g k = Some (sint (src rd))) int_sources)"
proof -
  let ?g = "\<lparr>g_name = measurement_of c, g_fields = Values (flattened rd),
             g_tags = Tags (flattened rd)\<rparr>"
  have "list_all (\<lambda>(k, src).
         uint (src (Memstats rd)) < 2 ^ 32 \<longrightarrow>
         int_field ?g k = Some (uint (src (Memstats rd)))) uint64_sources"
    using int_field_uint64_sources [of "measurement_of c" rd "Tags (flattened rd)"]
    by (auto simp: list_all_iff sint_fits32)
  then show ?thesis
    using int_field_int_sources [of "measurement_of c" rd "Tags (flattened rd)"]
    by (simp add: emits_iff int_field_count)
qed

text \<open>With \<open>HeapObjects = 4294967295\<close> the field \<open>mem.heap.objects\<close> reads 4294967295.\<close>

theorem C7_widening_lossless_witness:
  "uint (MemStats.HeapObjects (Memstats (with_HeapObjects node7 4294967295))) < 2 ^ 32 \<and>
   emits three_urls (with_HeapObjects node7 4294967295) acc_empty
     (\<lambda>g. int_field g ''mem.heap.objects'' = Some 4294967295)"
proof -
  have "emits three_urls (with_HeapObjects node7 4294967295) acc_empty
     (\<lambda>g. int_field g ''mem.heap.objects'' = Some 4294967295)"
    by (rule emits_mono [OF C7_widening_lossless [of three_urls "with_HeapObjects node7 4294967295" acc_empty]])
       (simp add: uint64_sources_def with_HeapObjects_def)
  then show ?thesis by (simp add: with_HeapObjects_def)
qed

text \<open>
  Claim C8.  For every payload, \<open>parse\<close> emits exactly one gauge, and two runs on
  the same payload, under any two configurations and any two accumulators, emit
  gauges with equal field maps and equal tag maps.
\<close>
theorem C8_deterministic:
  "emits c1 rd acc1 (\<lambda>g1. emits c2 rd acc2 (\<lambda>g2.
      g_fields g1 = g_fields g2 \<and> g_tags g1 = g_tags g2))"
  by (simp add: emits_iff)

text \<open>
  Claim C9.  Every emitted gauge has the key \<open>cpu.cgo_calls\<close>, which is not among
  the documented keys, and its value is 0 for every payload: no step assigns
  \<open>NumCgoCall\<close>.
\<close>
theorem C9_cgo_calls_zero:
  "emits c rd acc (\<lambda>g. g_fields g ''cpu.cgo_calls'' = Some (I64 0)) \<and>
   ''cpu.cgo_calls'' \<notin> set documented_keys"
  by (simp add: emits_iff Values_def flattened_def documented_keys_def)

text \<open>
  Claim C10.  The conversion of the unsigned 64-bit counters to \<open>int64\<close> wraps: for
  every payload and every such counter whose value is at least \<open>2 ^ 63\<close>, the
  output field reads as the value minus \<open>2 ^ 64\<close>, a negative number, so it differs
  from the source.  With \<open>Alloc = 2 ^ 64 - 1\<close> the field \<open>mem.alloc\<close> reads \<open>- 1\<close>.
\<close>
theorem C10_conversion_wraps:
  "emits c rd acc (\<lambda>g.
      list_all (\<lambda>(k, src).
         2 ^ 63 \<le> uint (src (Memstats rd)) \<longrightarrow>
         int_field g k = Some (uint (src (Memstats rd)) - 2 ^ 64) \<and>
         uint (src (Memstats rd)) - 2 ^ 64 < 0) uint64_sources)"
proof -
  let ?g = "\<lparr>g_name = measurement_of c, g_fields = Values (flattened rd),
             g_tags = Tags (flattened rd)\<rparr>"
  have neg: "uint x - 2 ^ 64 < 0" for x :: "64 word"
    using uint_lt2p [of x] by simp
  have "list_all (\<lambda>(k, src).
         2 ^ 63 \<le> uint (src (Memstats rd)) \<longrightarrow>
         int_field ?g k = Some (uint (src (Memstats rd)) - 2 ^ 64) \<and>
         uint (src (Memstats rd)) - 2 ^ 64 < 0) uint64_sources"
    using int_field_uint64_sources [of "measurement_of c" rd "Tags (flattened rd)"] neg
    by (auto simp: list_all_iff sint_big)
  then show ?thesis
    by (simp add: emits_iff)
qed

text \<open>With \<open>Alloc = 18446744073709551615\<close> the field \<open>mem.alloc\<close> reads \<open>- 1\<close>.\<close>

theorem C10_conversion_wraps_witness:
  "2 ^ 63 \<le> uint (MemStats.Alloc (Memstats (with_Alloc node7 18446744073709551615))) \<and>
   uint (MemStats.Alloc (Memstats (with_Alloc node7 18446744073709551615)))
     = 18446744073709551615 \<and>
   emits three_urls (with_Alloc node7 18446744073709551615) acc_empty
     (\<lambda>g. int_field g ''mem.alloc'' = Some (- 1))"
proof -
  have "emits three_urls (with_Alloc node7 18446744073709551615) acc_empty
     (\<lambda>g. int_field g ''mem.alloc'' = Some (- 1))"
    by (rule emits_mono [OF C10_conversion_wraps [of three_urls "with_Alloc node7 18446744073709551615" acc_empty]])
       (simp add: uint64_sources_def with_Alloc_def)
  then show ?thesis by (simp add: with_Alloc_def)
qed

section \<open>What one endpoint and one cycle do\<close>

lemma accumulator_eq: "\<lparr>gauges = gauges acc, errors = errors acc\<rparr> = (acc :: accumulator)"
  by simp

lemma gatherURL_frame:
  assumes "client c = Some cl"
  shows "gatherURL e c acc url =
           (case gatherURL e c acc_empty url of
              Panic \<Rightarrow> Panic
            | Return (err, a) \<Rightarrow>
                Return (err, \<lparr>gauges = gauges acc @ gauges a, errors = errors acc @ errors a\<rparr>))"
  using assms
  by (simp add: gatherURL_def parse_eq AddGauge_def acc_empty_def Let_def
      split: sum.splits)

lemma gatherURL_cases:
  assumes "client c = Some cl"
  shows "(\<exists>cause. gatherURL e c acc_empty url = Return (Some cause, acc_empty)) \<or>
         (\<exists>g. gatherURL e c acc_empty url = Return (None, \<lparr>gauges = [g], errors = []\<rparr>))"
  using assms
  by (simp add: gatherURL_def parse_eq AddGauge_def acc_empty_def Let_def
      split: sum.splits)

lemma gather_task_frame:
  assumes "client c = Some cl"
  shows "gather_task e c acc url =
           Return \<lparr>gauges = gauges acc @ report_gauges e c url,
                   errors = errors acc @ report_errors e c url\<rparr>"
  using gatherURL_cases [OF assms, of e url]
  by (auto simp: gather_task_def gatherURL_frame [OF assms, of e acc url]
      report_gauges_def report_errors_def report_def AddError_def acc_empty_def)

lemma one_report_ready:
  assumes "client c = Some cl"
  shows "one_report e c url"
  using gatherURL_cases [OF assms, of e url]
  by (auto simp: one_report_def report_def gather_task_def AddError_def acc_empty_def)

lemma failing_report:
  assumes "client c = Some cl" and "endpoint_fails e c url"
  shows "report_gauges e c url = [] \<and> length (report_errors e c url) = 1"
  using gatherURL_cases [OF assms(1), of e url] assms(2)
  by (auto simp: endpoint_fails_def report_gauges_def report_errors_def report_def
      gather_task_def AddError_def acc_empty_def)

lemma gather_all_eq:
  assumes "client c = Some cl"
  shows "gather_all e c acc us =
           Return \<lparr>gauges = gauges acc @ concat (map (report_gauges e c) us),
                   errors = errors acc @ concat (map (report_errors e c) us)\<rparr>"
proof (induction us arbitrary: acc)
  case Nil
  show ?case by simp
next
  case (Cons u us)
  show ?case
    by (simp add: gather_task_frame [OF assms] Cons.IH)
qed

lemma all_failing_reports:
  assumes "client c = Some cl" and "list_all (endpoint_fails e c) us"
  shows "concat (map (report_gauges e c) us) = [] \<and>
         length (concat (map (report_errors e c) us)) = length us"
  using assms(2)
proof (induction us)
  case Nil
  show ?case by simp
next
  case (Cons u us)
  then show ?case
    using failing_report [OF assms(1), of e u] by simp
qed

lemma cycle_ok_ready:
  assumes "client c = Some cl" and "c'\<lparr>client := client c0\<rparr> = c0" and "Urls c = Urls c0"
    and "Gather e c0 acc = (case gather_all e c acc (Urls c) of
                              Panic \<Rightarrow> Panic | Return acc' \<Rightarrow> Return (None, c, acc'))"
    and "c' = c"
  shows "cycle_ok e c0 acc"
  using assms all_failing_reports [OF assms(1), of e "Urls c"]
  by (simp add: cycle_ok_def gather_all_eq [OF assms(1)] list_all_iff
      one_report_ready [OF assms(1)])

text \<open>
  Claim C3, amended.  When the HTTP client is built already or its TLS
  configuration can be built, then for every outcome of the endpoints one call of
  \<open>Gather\<close> returns, without panic and with a nil error.  The accumulator then
  holds what it held, followed by the report of each endpoint: a failing endpoint
  reports the one error that names its URL and the cause and no gauge, a
  succeeding one reports one gauge and no error, and no report depends on the
  other endpoints.  When every endpoint fails the cycle still returns nil, having
  added one error for each URL and no gauge.
\<close>
theorem C3_cycle_completes:
  assumes "client_ready e c"
  shows "cycle_ok e c acc"
proof (cases "client c")
  case (Some cl)
  show ?thesis
  proof (rule cycle_ok_ready [where c = c and c' = c])
    show "client c = Some cl" by (fact Some)
    show "Gather e c acc = (case gather_all e c acc (Urls c) of
                              Panic \<Rightarrow> Panic | Return acc' \<Rightarrow> Return (None, c, acc'))"
      by (simp add: Gather_def Some)
  qed simp_all
next
  case None
  with assms obtain tlsCfg where t: "TLSConfig e (TLSOptions c) = Inr tlsCfg"
    by (auto simp: client_ready_def split: sum.splits)
  let ?c = "c\<lparr>client := Some \<lparr>TLSClientConfig = tlsCfg, Client_Timeout = Timeout c\<rparr>\<rparr>"
  show ?thesis
  proof (rule cycle_ok_ready [where c = ?c and c' = ?c])
    show "client ?c = Some \<lparr>TLSClientConfig = tlsCfg, Client_Timeout = Timeout c\<rparr>" by simp
    show "Gather e c acc = (case gather_all e ?c acc (Urls ?c) of
                              Panic \<Rightarrow> Panic | Return acc' \<Rightarrow> Return (None, ?c, acc'))"
      by (simp add: Gather_def None t)
    show "?c\<lparr>client := client c\<rparr> = c" by simp
  qed simp_all
qed

text \<open>Three endpoints with b answering 500, and three endpoints all answering 500.\<close>

theorem C3_cycle_completes_witness:
  "client_ready env_b_down three_urls \<and> cycle_ok env_b_down three_urls acc_empty \<and>
   client_ready env_all_down three_urls \<and> cycle_ok env_all_down three_urls acc_empty"
proof -
  have a: "client_ready env_b_down three_urls"
    by (simp add: client_ready_def env_b_down_def three_urls_def)
  have b: "client_ready env_all_down three_urls"
    by (simp add: client_ready_def env_all_down_def env_b_down_def three_urls_def)
  show ?thesis
    using a b C3_cycle_completes [OF a, of acc_empty] C3_cycle_completes [OF b, of acc_empty]
    by simp
qed

text \<open>
  Where the client has to be built and the TLS configuration cannot be, \<open>Gather\<close>
  returns that error and polls no endpoint.
\<close>

theorem C3_tls_failure_counterexample:
  "Gather env_tls_down three_urls acc_empty =
     Return (Some (External ''open ca.pem: no such file''), three_urls, acc_empty) \<and>
   \<not> cycle_ok env_tls_down three_urls acc_empty"
  by (simp add: Gather_def cycle_ok_def env_tls_down_def env_b_down_def three_urls_def)

lemma Gather_tls_failure:
  assumes "client c = None" and "TLSConfig e (TLSOptions c) = Inl msg"
  shows "Gather e c acc = Return (Some (External msg), c, acc)"
  using assms by (simp add: Gather_def)

text \<open>
  The cycle over endpoints a, b and c with b answering 500: a gauge for a, a gauge
  for c, and one error for b.
\<close>

lemma gatherURL_example_a:
  "gatherURL env_b_down three_urls_ready acc ''http://a/vars'' =
     Return (None, AddGauge acc ''goruntime_m'' (Values (flattened node7)) (Tags (flattened node7)))"
  by (simp add: gatherURL_def env_b_down_def three_urls_ready_def three_urls_def StatusOK_def
      parse_eq measurement_of_def DefaulMeasurement_def)

lemma gatherURL_example_b:
  "gatherURL env_b_down three_urls_ready acc ''http://b/vars'' =
     Return (Some (StatusError 500 ''Internal Server Error'' 200 ''OK''), acc)"
  by (simp add: gatherURL_def env_b_down_def three_urls_ready_def three_urls_def StatusOK_def
      text_of_status_def)

lemma gatherURL_example_c:
  "gatherURL env_b_down three_urls_ready acc ''http://c/vars'' =
     Return (None, AddGauge acc ''goruntime_m'' (Values (flattened node7)) (Tags (flattened node7)))"
  by (simp add: gatherURL_def env_b_down_def three_urls_ready_def three_urls_def StatusOK_def
      parse_eq measurement_of_def DefaulMeasurement_def)

lemma partial_failure_example:
  "Gather env_b_down three_urls acc_empty =
     Return (None, three_urls_ready,
       \<lparr>gauges = [node7_gauge, node7_gauge],
        errors = [UrlError ''http://b/vars''
                    (StatusError 500 ''Internal Server Error'' 200 ''OK'')]\<rparr>)"
proof -
  have c: "three_urls\<lparr>client := Some \<lparr>TLSClientConfig = TLS_Config 0,
             Client_Timeout = Timeout three_urls\<rparr>\<rparr> = three_urls_ready"
    by (simp add: three_urls_ready_def a_client_def three_urls_def)
  have u: "Urls three_urls_ready = [''http://a/vars'', ''http://b/vars'', ''http://c/vars'']"
    by (simp add: three_urls_ready_def three_urls_def)
  have n: "client three_urls = None"
    by (simp add: three_urls_def)
  have t: "TLSConfig env_b_down (TLSOptions three_urls) = Inr (TLS_Config 0)"
    by (simp add: env_b_down_def)
  have g: "Gather env_b_down three_urls acc_empty =
       (case gather_all env_b_down three_urls_ready acc_empty (Urls three_urls_ready) of
          Panic \<Rightarrow> Panic | Return acc' \<Rightarrow> Return (None, three_urls_ready, acc'))"
    by (simp add: Gather_def n t c)
  show ?thesis
    unfolding g u
    by (simp add: gather_task_def gatherURL_example_a gatherURL_example_b gatherURL_example_c
        AddGauge_def AddError_def acc_empty_def node7_gauge_def)
qed

section \<open>The status check\<close>

text \<open>
  Claim C4, amended.  For every response that the fetch of an endpoint receives,
  the fetch ends with the error telling the received status from the expected
  one if and only if the status code is not 200; the error carries the received
  code and 200 with their texts, and the accumulator is untouched.  On status 200
  the fetch goes on to decode the body: a decoding error is returned, a decoded
  payload is handed to \<open>parse\<close>.
\<close>
theorem C4_status_must_be_200:
  assumes "NewRequest e (Method c) url = Inr request"
    and "client c = Some cl"
    and "Do e cl (if Username c \<noteq> [] \<or> Password c \<noteq> []
                  then SetBasicAuth request (Username c) (Password c)
                  else request) = Inr resp"
  shows "(status_rejected (gatherURL e c acc url) \<longleftrightarrow> StatusCode resp \<noteq> 200) \<and>
         (StatusCode resp \<noteq> 200 \<longrightarrow>
            gatherURL e c acc url =
              Return (Some (StatusError (StatusCode resp) (StatusText e (StatusCode resp))
                              200 (StatusText e 200)), acc)) \<and>
         (StatusCode resp = 200 \<longrightarrow>
            gatherURL e c acc url =
              (case Decode e (Body resp) of
                 Inl err \<Rightarrow> Return (Some (External err), acc)
               | Inr data \<Rightarrow> parse c data acc))"
  using assms
  by (simp add: gatherURL_def status_rejected_def StatusOK_def parse_eq Let_def
      split: sum.splits)

text \<open>Endpoint b answers 500 and is rejected; endpoint a answers 200 and is parsed.\<close>

theorem C4_status_must_be_200_witness:
  "status_rejected (gatherURL env_b_down three_urls_ready acc_empty ''http://b/vars'') \<and>
   gatherURL env_b_down three_urls_ready acc_empty ''http://b/vars'' =
     Return (Some (StatusError 500 ''Internal Server Error'' 200 ''OK''), acc_empty) \<and>
   \<not> status_rejected (gatherURL env_b_down three_urls_ready acc_empty ''http://a/vars'') \<and>
   gatherURL env_b_down three_urls_ready acc_empty ''http://a/vars'' =
     parse three_urls_ready node7 acc_empty"
proof -
  let ?ra = "\<lparr>Request_Method = ''GET'', Request_URL = ''http://a/vars'', BasicAuth = None\<rparr>"
  let ?rb = "\<lparr>Request_Method = ''GET'', Request_URL = ''http://b/vars'', BasicAuth = None\<rparr>"
  have na: "NewRequest env_b_down (Method three_urls_ready) ''http://a/vars'' = Inr ?ra"
    and nb: "NewRequest env_b_down (Method three_urls_ready) ''http://b/vars'' = Inr ?rb"
    by (simp_all add: env_b_down_def three_urls_ready_def three_urls_def)
  have cl: "client three_urls_ready = Some a_client"
    by (simp add: three_urls_ready_def)
  have da: "Do env_b_down a_client
              (if Username three_urls_ready \<noteq> [] \<or> Password three_urls_ready \<noteq> []
               then SetBasicAuth ?ra (Username three_urls_ready) (Password three_urls_ready)
               else ?ra) = Inr \<lparr>StatusCode = 200, Body = ''node-7 payload''\<rparr>"
    by (simp add: env_b_down_def three_urls_ready_def three_urls_def)
  have db: "Do env_b_down a_client
              (if Username three_urls_ready \<noteq> [] \<or> Password three_urls_ready \<noteq> []
               then SetBasicAuth ?rb (Username three_urls_ready) (Password three_urls_ready)
               else ?rb) = Inr \<lparr>StatusCode = 500, Body = []\<rparr>"
    by (simp add: env_b_down_def three_urls_ready_def three_urls_def)
  have dec: "Decode env_b_down ''node-7 payload'' = Inr node7"
    by (simp add: env_b_down_def)
  have st: "StatusText env_b_down = text_of_status"
    by (simp add: env_b_down_def)
  show ?thesis
    using C4_status_must_be_200 [OF na cl da, of acc_empty]
      C4_status_must_be_200 [OF nb cl db, of acc_empty]
    by (auto simp: dec st text_of_status_def)
qed

text \<open>A response with status 201, a success status, is rejected all the same.\<close>

theorem C4_status_201_counterexample:
  "is_2xx 201 \<and>
   status_rejected (gatherURL env_created three_urls_ready acc_empty ''http://a/vars'') \<and>
   gatherURL env_created three_urls_ready acc_empty ''http://a/vars'' =
     Return (Some (StatusError 201 ''Created'' 200 ''OK''), acc_empty)"
  by (simp add: is_2xx_def status_rejected_def gatherURL_def env_created_def env_b_down_def
      three_urls_ready_def three_urls_def StatusOK_def text_of_status_def)

section \<open>Other schedules of the goroutines\<close>

text \<open>
  Each goroutine calls the accumulator once, so another schedule of the goroutines
  is another order of the same calls: the accumulator receives the same gauges and
  the same errors, as multisets, whatever the order in which the endpoints are served.
\<close>

lemma mset_concat_map_cong:
  assumes "mset us' = mset us"
  shows "mset (concat (map f us')) = mset (concat (map f us))"
proof -
  have "mset (concat (map f xs)) = sum_mset (image_mset (\<lambda>u. mset (f u)) (mset xs))" for xs
    by (induction xs) simp_all
  then show ?thesis by (simp add: assms)
qed

lemma gather_all_schedule:
  assumes "client c = Some cl" and "mset us' = mset us"
  shows "\<exists>a a'. gather_all e c acc us = Return a \<and> gather_all e c acc us' = Return a' \<and>
           mset (gauges a') = mset (gauges a) \<and> mset (errors a') = mset (errors a)"
  by (simp add: gather_all_eq [OF assms(1)] mset_concat_map_cong [OF assms(2)])

end
